theory Spec2Isabelle
  imports Complex_Main
begin

section \<open>Smart glasses demand prediction: the model of \<open>API/prediction.py\<close>\<close>

text \<open>
  The module is a small HTTP service around one function,
  \<open>predict_smart_glasses_demand\<close>. Its state is three module globals, written once at
  start-up: the regression model, the feature scaler and the list of column names.
  Python integers are \<open>int\<close>. Python floats are modelled by real numbers, so the
  arithmetic below is exact; the three values a float has beyond the finite ones are
  kept apart in \<open>pyfloat\<close>, because \<open>round\<close> raises on them. Output printed to the
  console is not part of any result and is left out.
\<close>

subsection \<open>Exceptions and numbers\<close>

text \<open>
  \<open>HTTPException\<close> is the framework's exception with its status code and detail.
  \<open>PyError\<close> stands for every other Python exception and carries its text.
  \<open>RequestValidationError\<close> is what the framework raises when a request body does not
  fit the declared schema; it carries the list of the errors found.
\<close>

datatype exc =
    HTTPException nat string
  | PyError string
  | RequestValidationError "string list"

datatype pyfloat = Finite real | NaN | PosInf | NegInf

text \<open>Python's \<open>round(x)\<close>: to the nearest integer, a tie going to the even one.\<close>

definition py_round :: "real \<Rightarrow> int" where
  "py_round x =
     (let f = \<lfloor>x\<rfloor>; d = x - of_int f in
      if d < 1 / 2 then f
      else if 1 / 2 < d then f + 1
      else if even f then f else f + 1)"

text \<open>Python's \<open>round(x, n)\<close>, in exact arithmetic.\<close>

definition py_round_ndigits :: "real \<Rightarrow> nat \<Rightarrow> real" where
  "py_round_ndigits x n = of_int (py_round (x * 10 ^ n)) / 10 ^ n"

text \<open>\<open>round(prediction)\<close> on a float: \<open>ValueError\<close> on NaN, \<open>OverflowError\<close> on an infinity.\<close>

fun round_float :: "pyfloat \<Rightarrow> string + int" where
  "round_float (Finite r) = Inr (py_round r)"
| "round_float NaN = Inl ''cannot convert float NaN to integer''"
| "round_float PosInf = Inl ''cannot convert float infinity to integer''"
| "round_float NegInf = Inl ''cannot convert float infinity to integer''"

subsection \<open>Module globals\<close>

text \<open>
  The scaler's \<open>transform\<close> takes the one-row data frame (column name and value, in
  column order) and returns the scaled row or raises; the model's \<open>predict\<close> takes the
  scaled row and returns its first prediction or raises. \<open>None\<close> is Python's \<open>None\<close>.
\<close>

type_synonym Scaler = "(string \<times> real) list \<Rightarrow> string + real list"
type_synonym Model = "real list \<Rightarrow> string + pyfloat"

record globals =
  model :: "Model option"
  scaler :: "Scaler option"
  actual_feature_names :: "string list option"

subsection \<open>Request and response schemas\<close>

record PredictionRequest =
  cognition :: int
  communication :: int
  hearing :: int
  mobility :: int
  self_care :: int
  vision :: int

record InputSummary =
  total_training_areas :: int
  vision_training_available :: bool
  mobility_training_available :: bool
  training_coverage_percentage :: real

record PredictionResponse =
  demand_score :: int
  demand_level :: string
  confidence :: real
  input_summary :: InputSummary
  recommendations :: string

text \<open>The field validator of \<open>PredictionRequest\<close>.\<close>

definition validate_binary_values :: "int \<Rightarrow> string + int" where
  "validate_binary_values v =
     (if v \<notin> set [0, 1] then Inl ''Value must be 0 (No) or 1 (Yes)'' else Inr v)"

text \<open>
  A request body as the JSON parser delivers it. An object is a dictionary, kept as an
  association list.
\<close>

datatype json =
    JNull
  | JBool bool
  | JInt int
  | JFloat real
  | JStr string
  | JArray "json list"
  | JObject "(string \<times> json) list"

text \<open>The value a body has under a field name; a body that is no object has none.\<close>

definition lookup_field :: "json \<Rightarrow> string \<Rightarrow> json option" where
  "lookup_field body name =
     (case body of JObject members \<Rightarrow> map_of members name | _ \<Rightarrow> None)"

text \<open>
  One declared field, \<open>Field(..., ge=0, le=1)\<close> of type \<open>int\<close> with the validator:
  required, then the type, then the two bounds, then the validator. The type step is
  the validation library's and is not part of the module: it is the parameter
  \<open>int_type\<close>, which gives the integer a JSON value is taken for, or the error.
\<close>

definition validate_field ::
  "(json \<Rightarrow> string + int) \<Rightarrow> json \<Rightarrow> string \<Rightarrow> string + int" where
  "validate_field int_type body name =
     (case lookup_field body name of
        None \<Rightarrow> Inl (name @ '': Field required'')
      | Some j \<Rightarrow>
          (case int_type j of
             Inl e \<Rightarrow> Inl (name @ '': '' @ e)
           | Inr v \<Rightarrow>
               if \<not> 0 \<le> v then
                 Inl (name @ '': Input should be greater than or equal to 0'')
               else if \<not> v \<le> 1 then
                 Inl (name @ '': Input should be less than or equal to 1'')
               else validate_binary_values v))"

definition field_names :: "string list" where
  "field_names =
     [''cognition'', ''communication'', ''hearing'', ''mobility'', ''self_care'', ''vision'']"

definition field_errors :: "(json \<Rightarrow> string + int) \<Rightarrow> json \<Rightarrow> string list" where
  "field_errors int_type body =
     concat (map (\<lambda>name. case validate_field int_type body name of
                            Inl e \<Rightarrow> [e] | Inr _ \<Rightarrow> [])
       field_names)"

definition field_value :: "(json \<Rightarrow> string + int) \<Rightarrow> json \<Rightarrow> string \<Rightarrow> int" where
  "field_value int_type body name =
     (case validate_field int_type body name of Inl _ \<Rightarrow> 0 | Inr v \<Rightarrow> v)"

text \<open>
  Building a \<open>PredictionRequest\<close> from a body: a body that is no object is refused;
  otherwise every declared field is validated and the errors are collected, and the
  request exists only when there is none.
\<close>

definition parse_PredictionRequest ::
  "(json \<Rightarrow> string + int) \<Rightarrow> json \<Rightarrow> exc + PredictionRequest" where
  "parse_PredictionRequest int_type body =
     (case body of
        JObject _ \<Rightarrow>
          if field_errors int_type body \<noteq> []
          then Inl (RequestValidationError (field_errors int_type body))
          else Inr \<lparr>cognition = field_value int_type body ''cognition'',
                    communication = field_value int_type body ''communication'',
                    hearing = field_value int_type body ''hearing'',
                    mobility = field_value int_type body ''mobility'',
                    self_care = field_value int_type body ''self_care'',
                    vision = field_value int_type body ''vision''\<rparr>
      | _ \<Rightarrow> Inl (RequestValidationError [''Input should be a valid dictionary'']))"

subsection \<open>\<open>get_demand_interpretation\<close>\<close>

definition get_demand_interpretation :: "int \<Rightarrow> string \<times> string" where
  "get_demand_interpretation score =
     (if score = 1 then
        (''Low'', ''Market shows low demand. Focus on awareness and education programs.'')
      else if score = 2 then
        (''Medium'',
         ''Moderate demand expected. Consider targeted marketing and partnerships.'')
      else
        (''High'',
         ''High demand potential! Prioritize manufacturing and distribution in this region.''))"

subsection \<open>\<open>predict_smart_glasses_demand\<close>\<close>

text \<open>
  The argument \<open>features\<close> is a dictionary from names to integers, kept as an
  association list. \<open>sum(features.values())\<close> adds all its values; \<open>features[k]\<close> raises
  \<open>KeyError\<close> when the key is absent.
\<close>

definition sum_values :: "(string \<times> int) list \<Rightarrow> int" where
  "sum_values features = sum_list (map snd features)"

definition getitem :: "(string \<times> int) list \<Rightarrow> string \<Rightarrow> string + int" where
  "getitem features k =
     (case map_of features k of None \<Rightarrow> Inl (''KeyError: '' @ k) | Some v \<Rightarrow> Inr v)"

text \<open>The demo branch, taken when the model or the scaler is \<open>None\<close>.\<close>

definition demo_prediction :: "(string \<times> int) list \<Rightarrow> int \<times> real" where
  "demo_prediction features =
     (let total_score = sum_values features;
          demo_score = min 3 (max 1 (1 + total_score div 2))
      in (demo_score, 0.75))"

text \<open>
  The three engineered features: \<open>total_training_score\<close>, \<open>vision_mobility_score\<close> and
  \<open>assistive_tech_readiness\<close>, in this order.
\<close>

definition engineered_features :: "(string \<times> int) list \<Rightarrow> string + (int \<times> int \<times> real)" where
  "engineered_features features =
     (let total_training_score = sum_values features in
      case getitem features ''vision'' of Inl e \<Rightarrow> Inl e | Inr vis \<Rightarrow>
      case getitem features ''mobility'' of Inl e \<Rightarrow> Inl e | Inr mob \<Rightarrow>
        Inr (total_training_score, vis + mob, (of_int total_training_score / 6) * 100))"

text \<open>The dictionary \<open>feature_data\<close>, with the column names used in training.\<close>

definition feature_data :: "(string \<times> int) list \<Rightarrow> string + (string \<times> real) list" where
  "feature_data features =
     (case engineered_features features of Inl e \<Rightarrow> Inl e
      | Inr (total_training_score, vision_mobility_score, assistive_tech_readiness) \<Rightarrow>
      case getitem features ''cognition'' of Inl e \<Rightarrow> Inl e | Inr cog \<Rightarrow>
      case getitem features ''communication'' of Inl e \<Rightarrow> Inl e | Inr com \<Rightarrow>
      case getitem features ''hearing'' of Inl e \<Rightarrow> Inl e | Inr hea \<Rightarrow>
      case getitem features ''mobility'' of Inl e \<Rightarrow> Inl e | Inr mob \<Rightarrow>
      case getitem features ''self_care'' of Inl e \<Rightarrow> Inl e | Inr sel \<Rightarrow>
      case getitem features ''vision'' of Inl e \<Rightarrow> Inl e | Inr vis \<Rightarrow>
        Inr [(''Training related to Cognition'', of_int cog),
             (''Training related to Communication'', of_int com),
             (''Training related to Hearing'', of_int hea),
             (''Training related to Mobility'', of_int mob),
             (''Training related to Self-care'', of_int sel),
             (''Training related to Vision'', of_int vis),
             (''total_training_score'', of_int total_training_score),
             (''vision_mobility_score'', of_int vision_mobility_score),
             (''assistive_tech_readiness'', assistive_tech_readiness)])"

text \<open>
  The loop over \<open>actual_feature_names\<close> that adds every expected column the frame lacks,
  with the value 0.
\<close>

fun fill_missing :: "(string \<times> real) list \<Rightarrow> string list \<Rightarrow> (string \<times> real) list" where
  "fill_missing df [] = df"
| "fill_missing df (feature_name # rest) =
     fill_missing
       (if feature_name \<notin> fst ` set df then df @ [(feature_name, 0)] else df) rest"

text \<open>\<open>features_df[actual_feature_names]\<close>: the columns in the order of the names.\<close>

definition select_columns ::
  "(string \<times> real) list \<Rightarrow> string list \<Rightarrow> string + (string \<times> real) list" where
  "select_columns df names =
     (if \<forall>n \<in> set names. n \<in> fst ` set df
      then Inr (map (\<lambda>n. (n, the (map_of df n))) names)
      else Inl ''KeyError: not in index'')"

text \<open>
  From the data frame to the model's raw output: fill, reorder, scale, predict.
  Iterating over \<open>actual_feature_names\<close> raises \<open>TypeError\<close> while it is \<open>None\<close>.
\<close>

definition raw_prediction ::
  "Model \<Rightarrow> Scaler \<Rightarrow> string list option \<Rightarrow> (string \<times> real) list \<Rightarrow> string + pyfloat" where
  "raw_prediction m s names fd =
     (case names of
        None \<Rightarrow> Inl ''TypeError: NoneType object is not iterable''
      | Some ns \<Rightarrow>
          (case select_columns (fill_missing fd ns) ns of Inl e \<Rightarrow> Inl e
           | Inr features_df \<Rightarrow>
          (case s features_df of Inl e \<Rightarrow> Inl e
           | Inr features_scaled \<Rightarrow> m features_scaled)))"

text \<open>The score and the confidence computed from the raw output.\<close>

definition score_confidence :: "pyfloat \<Rightarrow> string + (int \<times> real)" where
  "score_confidence prediction =
     (case round_float prediction of Inl e \<Rightarrow> Inl e
      | Inr rounded \<Rightarrow>
          (case prediction of
             Finite r \<Rightarrow>
               (let demand_score = max 1 (min 3 rounded);
                    confidence = min 0.95 (max 0.60 (1 - \<bar>r - of_int demand_score\<bar>))
                in Inr (demand_score, confidence))
           | _ \<Rightarrow> Inl ''unreachable''))"

text \<open>
  The whole function. An exception raised after \<open>feature_data\<close> is bound becomes
  \<open>HTTPException(500)\<close>. One raised before (a missing key) reaches the same handler,
  whose third \<open>print\<close> reads the unbound \<open>feature_data\<close>, so that the function leaves
  with \<open>UnboundLocalError\<close> instead.
\<close>

definition predict_smart_glasses_demand ::
  "globals \<Rightarrow> (string \<times> int) list \<Rightarrow> exc + (int \<times> real)" where
  "predict_smart_glasses_demand g features =
     (case (model g, scaler g) of
        (Some m, Some s) \<Rightarrow>
          (case feature_data features of
             Inl e \<Rightarrow> Inl (PyError ''UnboundLocalError: feature_data'')
           | Inr fd \<Rightarrow>
               (case raw_prediction m s (actual_feature_names g) fd of
                  Inl e \<Rightarrow> Inl (HTTPException 500 (''Prediction error: '' @ e))
                | Inr prediction \<Rightarrow>
                    (case score_confidence prediction of
                       Inl e \<Rightarrow> Inl (HTTPException 500 (''Prediction error: '' @ e))
                     | Inr res \<Rightarrow> Inr res)))
      | _ \<Rightarrow> Inr (demo_prediction features))"

subsection \<open>The endpoints\<close>

text \<open>The dictionary both prediction endpoints build from a validated request.\<close>

definition features_of :: "PredictionRequest \<Rightarrow> (string \<times> int) list" where
  "features_of request =
     [(''cognition'', cognition request),
      (''communication'', communication request),
      (''hearing'', hearing request),
      (''mobility'', mobility request),
      (''self_care'', self_care request),
      (''vision'', vision request)]"

text \<open>
  \<open>predict_demand\<close>: an \<open>HTTPException\<close> passes through, any other exception becomes
  \<open>HTTPException(500)\<close>.
\<close>

definition predict_demand :: "globals \<Rightarrow> PredictionRequest \<Rightarrow> exc + PredictionResponse" where
  "predict_demand g request =
     (let features = features_of request in
      case predict_smart_glasses_demand g features of
        Inl (PyError e) \<Rightarrow> Inl (HTTPException 500 (''Internal server error: '' @ e))
      | Inl e \<Rightarrow> Inl e
      | Inr (score, conf) \<Rightarrow>
          (case get_demand_interpretation score of (level, recs) \<Rightarrow>
             Inr \<lparr>demand_score = score,
                  demand_level = level,
                  confidence = py_round_ndigits conf 3,
                  input_summary =
                    \<lparr>total_training_areas = sum_values features,
                     vision_training_available = (vision request \<noteq> 0),
                     mobility_training_available = (mobility request \<noteq> 0),
                     training_coverage_percentage =
                       py_round_ndigits ((of_int (sum_values features) / 6) * 100) 1\<rparr>,
                  recommendations = recs\<rparr>))"

text \<open>
  \<open>predict_batch\<close>. An entry of the result list is either a result or, when the
  prediction of that item raised, an error; the error entry keeps the exception whose
  text the source puts after \<open>Prediction failed:\<close>.
\<close>

datatype batch_entry =
    BatchResult nat int string real
  | BatchError nat exc

fun entry_index :: "batch_entry \<Rightarrow> nat" where
  "entry_index (BatchResult i _ _ _) = i"
| "entry_index (BatchError i _) = i"

definition batch_item :: "globals \<Rightarrow> nat \<Rightarrow> PredictionRequest \<Rightarrow> batch_entry" where
  "batch_item g i request =
     (case predict_smart_glasses_demand g (features_of request) of
        Inl e \<Rightarrow> BatchError i e
      | Inr (score, conf) \<Rightarrow>
          BatchResult i score (fst (get_demand_interpretation score))
            (py_round_ndigits conf 3))"

fun batch_loop ::
  "globals \<Rightarrow> nat \<Rightarrow> PredictionRequest list \<Rightarrow> batch_entry list \<Rightarrow> batch_entry list" where
  "batch_loop g i [] results = results"
| "batch_loop g i (request # rest) results =
     batch_loop g (Suc i) rest (results @ [batch_item g i request])"

definition predict_batch :: "globals \<Rightarrow> PredictionRequest list \<Rightarrow> exc + batch_entry list" where
  "predict_batch g requests =
     (if length requests > 50
      then Inl (HTTPException 400 ''Batch size cannot exceed 50 requests'')
      else Inr (batch_loop g 0 requests []))"

text \<open>
  \<open>health_check\<close>. The body of its \<open>try\<close> is \<open>health_check_try\<close>; the handler turns any
  exception into the unhealthy answer.
\<close>

datatype health =
    Healthy bool bool bool int real
  | Unhealthy bool exc

definition health_demo_mode :: "health \<Rightarrow> bool option" where
  "health_demo_mode h = (case h of Healthy _ _ dm _ _ \<Rightarrow> Some dm | Unhealthy _ _ \<Rightarrow> None)"

definition test_features :: "(string \<times> int) list" where
  "test_features =
     [(''cognition'', 1), (''communication'', 1), (''hearing'', 1),
      (''mobility'', 1), (''self_care'', 1), (''vision'', 1)]"

definition health_check_try :: "globals \<Rightarrow> exc + health" where
  "health_check_try g =
     (case predict_smart_glasses_demand g test_features of
        Inl e \<Rightarrow> Inl e
      | Inr test_prediction \<Rightarrow>
          Inr (Healthy (model g \<noteq> None \<and> scaler g \<noteq> None) True
                 (model g = None \<or> scaler g = None)
                 (fst test_prediction) (py_round_ndigits (snd test_prediction) 3)))"

definition health_check :: "globals \<Rightarrow> exc + health" where
  "health_check g =
     (case health_check_try g of
        Inl e \<Rightarrow> Inr (Unhealthy False e)
      | Inr h \<Rightarrow> Inr h)"

text \<open>
  Modelled from the spec: the web framework's handling of \<open>POST /predict\<close>, which is
  not part of the module; the module only declares the route and the annotation
  \<open>request: PredictionRequest\<close>. Following the specification, a validation error is
  reported before the predictor is reached: the body is parsed into the schema first,
  and the endpoint function \<open>predict_demand\<close> is called only with a request that
  parsed.
\<close>

definition post_predict ::
  "(json \<Rightarrow> string + int) \<Rightarrow> globals \<Rightarrow> json \<Rightarrow> exc + PredictionResponse" where
  "post_predict int_type g body =
     (case parse_PredictionRequest int_type body of
        Inl e \<Rightarrow> Inl e
      | Inr request \<Rightarrow> predict_demand g request)"

text \<open>
  Modelled from the spec: the status code of the response the web framework sends for
  an exception, which is not part of the module. Following the specification, a
  validation error is a 422 response, a prediction error a 500 response, and an
  \<open>HTTPException\<close> carries its own status code.
\<close>

fun response_status :: "exc \<Rightarrow> nat" where
  "response_status (HTTPException code _) = code"
| "response_status (PyError _) = 500"
| "response_status (RequestValidationError _) = 422"

subsection \<open>Notions used in the statements\<close>

text \<open>A request whose six flags are 0 or 1, as the schema guarantees.\<close>

definition valid_request :: "PredictionRequest \<Rightarrow> bool" where
  "valid_request request =
     (cognition request \<in> {0, 1} \<and> communication request \<in> {0, 1} \<and>
      hearing request \<in> {0, 1} \<and> mobility request \<in> {0, 1} \<and>
      self_care request \<in> {0, 1} \<and> vision request \<in> {0, 1})"

definition flag_sum :: "PredictionRequest \<Rightarrow> int" where
  "flag_sum request =
     cognition request + communication request + hearing request +
     mobility request + self_care request + vision request"

definition demo_mode :: "globals \<Rightarrow> bool" where
  "demo_mode g = (model g = None \<or> scaler g = None)"

text \<open>The specification's \<open>clamp(x, lo, hi)\<close>.\<close>

definition clamp :: "'a::linorder \<Rightarrow> 'a \<Rightarrow> 'a \<Rightarrow> 'a" where
  "clamp x lo hi = (if x < lo then lo else if hi < x then hi else x)"

text \<open>The specification's table of the fallback score, by the number of flags set.\<close>

definition fallback_table :: "int \<Rightarrow> int" where
  "fallback_table n = [1, 1, 2, 2, 3, 3, 3] ! nat n"

text \<open>Every flag of the first request is at most the same flag of the second.\<close>

definition flags_le :: "PredictionRequest \<Rightarrow> PredictionRequest \<Rightarrow> bool" where
  "flags_le a b =
     (cognition a \<le> cognition b \<and> communication a \<le> communication b \<and>
      hearing a \<le> hearing b \<and> mobility a \<le> mobility b \<and>
      self_care a \<le> self_care b \<and> vision a \<le> vision b)"

subsection \<open>Example globals and requests\<close>

text \<open>The column names the start-up code falls back to.\<close>

definition training_feature_names :: "string list" where
  "training_feature_names =
     [''Training related to Cognition'',
      ''Training related to Communication'',
      ''Training related to Hearing'',
      ''Training related to Mobility'',
      ''Training related to Self-care'',
      ''Training related to Vision'',
      ''total_training_score'',
      ''vision_mobility_score'',
      ''assistive_tech_readiness'']"

text \<open>No artifact loaded: the state after a failed start-up load.\<close>

definition demo_globals :: globals where
  "demo_globals =
     \<lparr>model = None, scaler = None, actual_feature_names = Some training_feature_names\<rparr>"

text \<open>A loaded model whose raw output is always \<open>r\<close>, with a scaler that changes nothing.\<close>

definition constant_model :: "real \<Rightarrow> globals" where
  "constant_model r =
     \<lparr>model = Some (\<lambda>row. Inr (Finite r)),
      scaler = Some (\<lambda>df. Inr (map snd df)),
      actual_feature_names = Some training_feature_names\<rparr>"

text \<open>A loaded model that raises whenever the first column is 1 and returns 2.3 otherwise.\<close>

definition raising_model :: globals where
  "raising_model =
     \<lparr>model = Some (\<lambda>row. case row of [] \<Rightarrow> Inl ''empty row''
                          | x # _ \<Rightarrow> if x = 1 then Inl ''model failure'' else Inr (Finite 2.3)),
      scaler = Some (\<lambda>df. Inr (map snd df)),
      actual_feature_names = Some training_feature_names\<rparr>"

definition all_ones :: PredictionRequest where
  "all_ones =
     \<lparr>cognition = 1, communication = 1, hearing = 1, mobility = 1, self_care = 1, vision = 1\<rparr>"

definition all_zeros :: PredictionRequest where
  "all_zeros =
     \<lparr>cognition = 0, communication = 0, hearing = 0, mobility = 0, self_care = 0, vision = 0\<rparr>"

text \<open>The example of the request schema.\<close>

definition example_request :: PredictionRequest where
  "example_request =
     \<lparr>cognition = 1, communication = 1, hearing = 1, mobility = 0, self_care = 1, vision = 0\<rparr>"

text \<open>
  Two type steps, as examples: one takes integers only; the other also takes a boolean
  for 0 or 1 and a float without fractional part for its integer.
\<close>

fun integers_only :: "json \<Rightarrow> string + int" where
  "integers_only (JInt n) = Inr n"
| "integers_only _ = Inl ''Input should be a valid integer''"

fun lax_integers :: "json \<Rightarrow> string + int" where
  "lax_integers (JInt n) = Inr n"
| "lax_integers (JBool b) = Inr (if b then 1 else 0)"
| "lax_integers (JFloat r) =
     (if r = of_int \<lfloor>r\<rfloor> then Inr \<lfloor>r\<rfloor>
      else Inl ''Input should be a valid integer, got a number with a fractional part'')"
| "lax_integers _ = Inl ''Input should be a valid integer''"

text \<open>A body whose \<open>cognition\<close> is 2.\<close>

definition cognition_two_body :: json where
  "cognition_two_body =
     JObject [(''cognition'', JInt 2), (''communication'', JInt 1), (''hearing'', JInt 1),
              (''mobility'', JInt 0), (''self_care'', JInt 1), (''vision'', JInt 0)]"

text \<open>A body without \<open>vision\<close> whose \<open>hearing\<close> is a string.\<close>

definition incomplete_body :: json where
  "incomplete_body =
     JObject [(''cognition'', JInt 1), (''communication'', JBool True),
              (''hearing'', JStr ''yes''), (''mobility'', JInt 0), (''self_care'', JInt 1)]"

section \<open>Properties\<close>

lemma sum_values_features_of: "sum_values (features_of request) = flag_sum request"
  by (simp add: sum_values_def features_of_def flag_sum_def)

text \<open>
  C9: the interpretation lookup is total over the integers, and every score other than
  1 and 2, also 0 and the negative ones, gets the High level and the High
  recommendation, the last branch being the catch-all.
\<close>

theorem interpretation_catch_all:
  "score \<noteq> 1 \<and> score \<noteq> 2 \<longrightarrow>
     get_demand_interpretation score =
       (''High'',
        ''High demand potential! Prioritize manufacturing and distribution in this region.'')"
  by (simp add: get_demand_interpretation_def)

theorem interpretation_catch_all_witness:
  "get_demand_interpretation 0 =
     (''High'',
      ''High demand potential! Prioritize manufacturing and distribution in this region.'') \<and>
   get_demand_interpretation (- 7) =
     (''High'',
      ''High demand potential! Prioritize manufacturing and distribution in this region.'')"
  using interpretation_catch_all [of 0] interpretation_catch_all [of "- 7"] by simp

lemma valid_request_flag_sum:
  "valid_request request \<Longrightarrow> flag_sum request \<in> {0, 1, 2, 3, 4, 5, 6}"
  unfolding valid_request_def flag_sum_def by auto

lemma predict_demo:
  "demo_mode g \<Longrightarrow> predict_smart_glasses_demand g features = Inr (demo_prediction features)"
  by (auto simp: demo_mode_def predict_smart_glasses_demand_def split: option.splits)

lemma demo_prediction_features_of:
  "demo_prediction (features_of request) = (min 3 (max 1 (1 + flag_sum request div 2)), 0.75)"
  by (simp add: demo_prediction_def sum_values_features_of)

lemma flags_le_flag_sum: "flags_le a b \<Longrightarrow> flag_sum a \<le> flag_sum b"
  unfolding flags_le_def flag_sum_def by linarith

lemma score_confidence_range:
  "score_confidence prediction = Inr (score, conf) \<Longrightarrow> score \<in> {1, 2, 3}"
  by (cases prediction) (auto simp: score_confidence_def Let_def)

lemma demo_prediction_range: "fst (demo_prediction features) \<in> {1, 2, 3}"
  by (auto simp: demo_prediction_def Let_def)

lemma predict_score_range:
  "predict_smart_glasses_demand g features = Inr (score, conf) \<Longrightarrow> score \<in> {1, 2, 3}"
proof (cases "demo_mode g")
  case True
  assume "predict_smart_glasses_demand g features = Inr (score, conf)"
  with True have "score = fst (demo_prediction features)" by (simp add: predict_demo)
  then show ?thesis using demo_prediction_range by simp
next
  case False
  assume a: "predict_smart_glasses_demand g features = Inr (score, conf)"
  from False obtain m s where "model g = Some m" "scaler g = Some s"
    by (auto simp: demo_mode_def)
  with a obtain prediction where "score_confidence prediction = Inr (score, conf)"
    by (auto simp: predict_smart_glasses_demand_def split: sum.splits)
  then show ?thesis by (rule score_confidence_range)
qed

lemma predict_demand_Inr:
  "predict_demand g request = Inr resp \<Longrightarrow>
   \<exists>conf. predict_smart_glasses_demand g (features_of request) = Inr (demand_score resp, conf) \<and>
          demand_level resp = fst (get_demand_interpretation (demand_score resp)) \<and>
          recommendations resp = snd (get_demand_interpretation (demand_score resp)) \<and>
          confidence resp = py_round_ndigits conf 3 \<and>
          total_training_areas (input_summary resp) = flag_sum request \<and>
          vision_training_available (input_summary resp) = (vision request \<noteq> 0) \<and>
          mobility_training_available (input_summary resp) = (mobility request \<noteq> 0) \<and>
          training_coverage_percentage (input_summary resp) =
            py_round_ndigits ((of_int (flag_sum request) / 6) * 100) 1"
  by (auto simp: predict_demand_def Let_def sum_values_features_of
           split: sum.splits exc.splits prod.splits)

lemma features_of_engineered:
  "engineered_features (features_of request) =
     Inr (flag_sum request, vision request + mobility request,
          (of_int (flag_sum request) / 6) * 100)"
  by (simp add: engineered_features_def sum_values_features_of Let_def)
     (simp add: features_of_def getitem_def)

lemma score_confidence_Finite:
  "score_confidence (Finite r) =
     Inr (max 1 (min 3 (py_round r)),
          min 0.95 (max 0.60 (1 - \<bar>r - of_int (max 1 (min 3 (py_round r)))\<bar>)))"
  by (simp add: score_confidence_def Let_def)

lemma min_max_clamp:
  "lo \<le> hi \<Longrightarrow> min hi (max lo x) = clamp x lo (hi::'a::linorder)"
  by (auto simp: clamp_def min_def max_def)

lemma predict_model_mode:
  assumes "model g = Some m" and "scaler g = Some s"
    and "feature_data features = Inr fd"
    and "raw_prediction m s (actual_feature_names g) fd = Inr prediction"
  shows "predict_smart_glasses_demand g features =
           (case score_confidence prediction of
              Inl e \<Rightarrow> Inl (HTTPException 500 (''Prediction error: '' @ e))
            | Inr res \<Rightarrow> Inr res)"
  using assms by (simp add: predict_smart_glasses_demand_def)

lemma batch_loop_append:
  "batch_loop g i requests results =
     results @ map (\<lambda>(k, request). batch_item g k request)
                 (zip [i ..< i + length requests] requests)"
proof (induction requests arbitrary: i results)
  case Nil
  then show ?case by simp
next
  case (Cons request rest)
  have "i < i + length (request # rest)" by simp
  from upt_conv_Cons [OF this]
  have "[i ..< i + length (request # rest)] = i # [Suc i ..< Suc i + length rest]"
    by simp
  then show ?case by (simp add: Cons.IH)
qed

lemma batch_loop_length: "length (batch_loop g 0 requests []) = length requests"
  by (simp add: batch_loop_append)

lemma batch_loop_nth:
  "k < length requests \<Longrightarrow> batch_loop g 0 requests [] ! k = batch_item g k (requests ! k)"
  by (simp add: batch_loop_append)

lemma batch_item_index: "entry_index (batch_item g k request) = k"
  by (simp add: batch_item_def split: sum.splits prod.splits)

lemma batch_item_error:
  "predict_smart_glasses_demand g (features_of request) = Inl e \<Longrightarrow>
   batch_item g k request = BatchError k e"
  by (simp add: batch_item_def)

lemma validate_field_Inr:
  "validate_field int_type body name = Inr v \<Longrightarrow>
   \<exists>j. lookup_field body name = Some j \<and> int_type j = Inr v \<and> v \<in> {0, 1}"
  by (auto simp: validate_field_def validate_binary_values_def
           split: option.splits sum.splits if_splits)

lemma validate_field_bad:
  assumes "lookup_field body name = None \<or>
           (\<exists>j. lookup_field body name = Some j \<and> (\<forall>v. int_type j = Inr v \<longrightarrow> v \<notin> {0, 1}))"
  shows "\<exists>e. validate_field int_type body name = Inl e"
proof (cases "validate_field int_type body name")
  case (Inl e)
  then show ?thesis by blast
next
  case (Inr v)
  from validate_field_Inr [OF this] assms show ?thesis by auto
qed

lemma field_errors_nonempty:
  assumes "name \<in> set field_names" and "validate_field int_type body name = Inl e"
  shows "field_errors int_type body \<noteq> []"
proof -
  from assms have "e \<in> set (field_errors int_type body)"
    unfolding field_errors_def by (auto intro!: bexI [of _ name])
  then show ?thesis by auto
qed

lemma parse_refuses:
  assumes "field_errors int_type body \<noteq> []"
  shows "\<exists>errors. errors \<noteq> [] \<and>
           parse_PredictionRequest int_type body = Inl (RequestValidationError errors)"
  using assms by (cases body) (simp_all add: parse_PredictionRequest_def)

lemma test_features_all_ones: "test_features = features_of all_ones"
  by (simp add: test_features_def features_of_def all_ones_def)

text \<open>
  C2: in fallback mode (the model or the scaler is not loaded), every request with six
  flags in \<open>{0, 1}\<close> gets the demand score \<open>clamp(1 + floor(sum / 2), 1, 3)\<close>, which is the
  table 1, 1, 2, 2, 3, 3, 3 for the sums 0 to 6, and the confidence 0.75 exactly.
\<close>

theorem fallback_prediction:
  assumes "demo_mode g" and "valid_request request"
  shows "predict_smart_glasses_demand g (features_of request) =
           Inr (clamp (1 + flag_sum request div 2) 1 3, 0.75) \<and>
         clamp (1 + flag_sum request div 2) 1 3 = fallback_table (flag_sum request) \<and>
         flag_sum request \<in> {0..6}"
proof -
  from assms(2) have s: "flag_sum request \<in> {0, 1, 2, 3, 4, 5, 6}"
    by (rule valid_request_flag_sum)
  have c: "min 3 (max 1 (1 + flag_sum request div 2)) = clamp (1 + flag_sum request div 2) 1 3"
    by (simp add: clamp_def)
  have t: "clamp (1 + flag_sum request div 2) 1 3 = fallback_table (flag_sum request)"
    using s by (auto simp: clamp_def fallback_table_def)
  from s have r: "flag_sum request \<in> {0..6}" by auto
  have p: "predict_smart_glasses_demand g (features_of request) =
             Inr (clamp (1 + flag_sum request div 2) 1 3, 0.75)"
    unfolding predict_demo [OF assms(1)] demo_prediction_features_of c ..
  from p t r show ?thesis by blast
qed

theorem fallback_prediction_witness:
  "demo_mode demo_globals \<and> valid_request example_request \<and>
   predict_smart_glasses_demand demo_globals (features_of example_request) = Inr (3, 0.75) \<and>
   flag_sum example_request = 4 \<and> fallback_table 4 = 3"
proof -
  have d: "demo_mode demo_globals" by (simp add: demo_mode_def demo_globals_def)
  have v: "valid_request example_request" by (simp add: valid_request_def example_request_def)
  have s: "flag_sum example_request = 4" by (simp add: flag_sum_def example_request_def)
  have t: "fallback_table 4 = 3" by (simp add: fallback_table_def)
  show ?thesis using fallback_prediction [OF d v] d v s t by simp
qed

text \<open>
  C10: the fallback demand score is monotone in the flags: when every flag of the first
  request is at most the same flag of the second, the fallback score of the first is at
  most that of the second. It holds for all integer flags, so for those in \<open>{0, 1}\<close>.
\<close>

theorem fallback_monotone:
  assumes "demo_mode g" and "flags_le a b"
  shows "\<exists>sa sb. predict_smart_glasses_demand g (features_of a) = Inr (sa, 0.75) \<and>
                 predict_smart_glasses_demand g (features_of b) = Inr (sb, 0.75) \<and> sa \<le> sb"
proof -
  from assms(2) have "flag_sum a \<le> flag_sum b" by (rule flags_le_flag_sum)
  then have "flag_sum a div 2 \<le> flag_sum b div 2" by (rule zdiv_mono1) simp
  then have "min 3 (max 1 (1 + flag_sum a div 2)) \<le> min (3::int) (max 1 (1 + flag_sum b div 2))"
    by linarith
  then show ?thesis
    using assms(1) by (simp add: predict_demo demo_prediction_features_of)
qed

theorem fallback_monotone_witness:
  "demo_mode demo_globals \<and> flags_le all_zeros example_request \<and>
   (\<exists>sa sb. predict_smart_glasses_demand demo_globals (features_of all_zeros) = Inr (sa, 0.75) \<and>
            predict_smart_glasses_demand demo_globals (features_of example_request) = Inr (sb, 0.75) \<and>
            sa \<le> sb)"
proof -
  have d: "demo_mode demo_globals" by (simp add: demo_mode_def demo_globals_def)
  have l: "flags_le all_zeros example_request"
    by (simp add: flags_le_def all_zeros_def example_request_def)
  show ?thesis using fallback_monotone [OF d l] d l by simp
qed

text \<open>
  C3: in both modes, whenever the predictor returns, the demand score is 1, 2 or 3; the
  level and the recommendation of a response (and the level of a batch entry) are the
  value of \<open>get_demand_interpretation\<close> at that score alone: 1 is Low, 2 is Medium, 3
  is High, each with its one recommendation.
\<close>

theorem score_range_and_interpretation:
  "(predict_smart_glasses_demand g features = Inr (score, conf) \<longrightarrow> score \<in> {1, 2, 3}) \<and>
   (predict_demand g request = Inr resp \<longrightarrow>
      demand_score resp \<in> {1, 2, 3} \<and>
      (demand_level resp, recommendations resp) =
        get_demand_interpretation (demand_score resp)) \<and>
   (batch_item g i request = BatchResult j s l c \<longrightarrow>
      s \<in> {1, 2, 3} \<and> l = fst (get_demand_interpretation s)) \<and>
   get_demand_interpretation 1 =
     (''Low'', ''Market shows low demand. Focus on awareness and education programs.'') \<and>
   get_demand_interpretation 2 =
     (''Medium'',
      ''Moderate demand expected. Consider targeted marketing and partnerships.'') \<and>
   get_demand_interpretation 3 =
     (''High'',
      ''High demand potential! Prioritize manufacturing and distribution in this region.'')"
proof -
  have a: "predict_smart_glasses_demand g features = Inr (score, conf) \<longrightarrow> score \<in> {1, 2, 3}"
    using predict_score_range by blast
  have b: "predict_demand g request = Inr resp \<longrightarrow>
      demand_score resp \<in> {1, 2, 3} \<and>
      (demand_level resp, recommendations resp) =
        get_demand_interpretation (demand_score resp)"
  proof
    assume "predict_demand g request = Inr resp"
    from predict_demand_Inr [OF this] obtain conf' where
      p: "predict_smart_glasses_demand g (features_of request) = Inr (demand_score resp, conf')"
      and l: "demand_level resp = fst (get_demand_interpretation (demand_score resp))"
      and r: "recommendations resp = snd (get_demand_interpretation (demand_score resp))"
      by blast
    from p have "demand_score resp \<in> {1, 2, 3}" by (rule predict_score_range)
    with l r show "demand_score resp \<in> {1, 2, 3} \<and>
      (demand_level resp, recommendations resp) =
        get_demand_interpretation (demand_score resp)" by simp
  qed
  have c: "batch_item g i request = BatchResult j s l c \<longrightarrow>
      s \<in> {1, 2, 3} \<and> l = fst (get_demand_interpretation s)"
  proof
    assume e: "batch_item g i request = BatchResult j s l c"
    then obtain conf' where
      p: "predict_smart_glasses_demand g (features_of request) = Inr (s, conf')"
      and l: "l = fst (get_demand_interpretation s)"
      by (auto simp: batch_item_def split: sum.splits prod.splits)
    from p have "s \<in> {1, 2, 3}" by (rule predict_score_range)
    with l show "s \<in> {1, 2, 3} \<and> l = fst (get_demand_interpretation s)" by simp
  qed
  have d: "get_demand_interpretation 1 =
     (''Low'', ''Market shows low demand. Focus on awareness and education programs.'')"
    by (simp add: get_demand_interpretation_def)
  have e: "get_demand_interpretation 2 =
     (''Medium'',
      ''Moderate demand expected. Consider targeted marketing and partnerships.'')"
    by (simp add: get_demand_interpretation_def)
  have f: "get_demand_interpretation 3 =
     (''High'',
      ''High demand potential! Prioritize manufacturing and distribution in this region.'')"
    by (simp add: get_demand_interpretation_def)
  from a b c d e f show ?thesis by blast
qed

theorem score_range_and_interpretation_witness:
  "predict_smart_glasses_demand (constant_model (- 4)) (features_of all_ones) =
     Inr (1, 0.6) \<and>
   predict_demand (constant_model (- 4)) all_zeros =
     Inr \<lparr>demand_score = 1, demand_level = ''Low'', confidence = 0.6,
          input_summary = \<lparr>total_training_areas = 0, vision_training_available = False,
                            mobility_training_available = False,
                            training_coverage_percentage = 0\<rparr>,
          recommendations =
            ''Market shows low demand. Focus on awareness and education programs.''\<rparr> \<and>
   batch_item (constant_model (- 4)) 5 all_zeros = BatchResult 5 1 ''Low'' 0.6 \<and>
   (1::int) \<in> {1, 2, 3} \<and>
   get_demand_interpretation 1 =
     (''Low'', ''Market shows low demand. Focus on awareness and education programs.'')"
proof -
  have a: "predict_smart_glasses_demand (constant_model (- 4)) (features_of all_ones) =
     Inr (1, 0.6)" by code_simp
  have b: "predict_demand (constant_model (- 4)) all_zeros =
     Inr \<lparr>demand_score = 1, demand_level = ''Low'', confidence = 0.6,
          input_summary = \<lparr>total_training_areas = 0, vision_training_available = False,
                            mobility_training_available = False,
                            training_coverage_percentage = 0\<rparr>,
          recommendations =
            ''Market shows low demand. Focus on awareness and education programs.''\<rparr>"
    by code_simp
  have c: "batch_item (constant_model (- 4)) 5 all_zeros = BatchResult 5 1 ''Low'' 0.6"
    by code_simp
  note t = score_range_and_interpretation
         [where g = "constant_model (- 4)" and features = "features_of all_ones"
            and score = 1 and conf = "0.6" and request = all_zeros
            and i = 5 and j = 5 and s = 1 and l = "''Low''" and c = "0.6"]
  from t a have d: "(1::int) \<in> {1, 2, 3}" by blast
  from t have e: "get_demand_interpretation 1 =
     (''Low'', ''Market shows low demand. Focus on awareness and education programs.'')"
    by blast
  from a b c d e show ?thesis by blast
qed

text \<open>
  C5: for a request with six flags in \<open>{0, 1}\<close>, \<open>total_training_score\<close> is the sum of
  the six flags (0 to 6), \<open>vision_mobility_score\<close> is vision plus mobility (0 to 2), and
  \<open>assistive_tech_readiness\<close> is \<open>total_training_score / 6 * 100\<close> (0 to 100); these are
  the values stored in \<open>feature_data\<close>.
\<close>

theorem engineered_features_values:
  assumes "valid_request request"
  shows "engineered_features (features_of request) =
           Inr (flag_sum request, vision request + mobility request,
                of_int (flag_sum request) / 6 * 100) \<and>
         (\<exists>fd. feature_data (features_of request) = Inr fd \<and>
            map_of fd ''total_training_score'' = Some (of_int (flag_sum request)) \<and>
            map_of fd ''vision_mobility_score'' =
              Some (of_int (vision request + mobility request)) \<and>
            map_of fd ''assistive_tech_readiness'' =
              Some (of_int (flag_sum request) / 6 * 100)) \<and>
         flag_sum request \<in> {0..6} \<and>
         vision request + mobility request \<in> {0..2} \<and>
         (0::real) \<le> of_int (flag_sum request) / 6 * 100 \<and>
         of_int (flag_sum request) / 6 * 100 \<le> (100::real)"
proof -
  from assms have s: "flag_sum request \<in> {0..6}"
    using valid_request_flag_sum by fastforce
  from assms have vm: "vision request + mobility request \<in> {0..2}"
    unfolding valid_request_def by auto
  have fd: "\<exists>fd. feature_data (features_of request) = Inr fd \<and>
            map_of fd ''total_training_score'' = Some (of_int (flag_sum request)) \<and>
            map_of fd ''vision_mobility_score'' =
              Some (of_int (vision request + mobility request)) \<and>
            map_of fd ''assistive_tech_readiness'' =
              Some (of_int (flag_sum request) / 6 * 100)"
    unfolding feature_data_def features_of_engineered
    by (simp add: features_of_def getitem_def)
  from s have lo: "(0::real) \<le> of_int (flag_sum request) / 6 * 100" by simp
  from s have "(of_int (flag_sum request) :: real) \<le> 6" by simp
  then have hi: "of_int (flag_sum request) / 6 * 100 \<le> (100::real)" by simp
  from features_of_engineered fd s vm lo hi show ?thesis by blast
qed

theorem engineered_features_values_witness:
  "valid_request example_request \<and>
   engineered_features (features_of example_request) = Inr (4, 0, 200 / 3)"
proof -
  have v: "valid_request example_request" by (simp add: valid_request_def example_request_def)
  have s: "flag_sum example_request = 4" by (simp add: flag_sum_def example_request_def)
  have m: "vision example_request + mobility example_request = 0"
    by (simp add: example_request_def)
  show ?thesis using engineered_features_values [OF v] v by (simp add: s m)
qed

text \<open>
  C6: in every response of \<open>predict_demand\<close>, the coverage percentage of the input
  summary is \<open>round(100 * sum(flags) / 6, 1)\<close>, and the summary also reports the number
  of flags set and whether the vision and the mobility flag are set.
\<close>

theorem input_summary_values:
  assumes "predict_demand g request = Inr resp"
  shows "training_coverage_percentage (input_summary resp) =
           py_round_ndigits (100 * of_int (flag_sum request) / 6) 1 \<and>
         total_training_areas (input_summary resp) = flag_sum request \<and>
         vision_training_available (input_summary resp) = (vision request \<noteq> 0) \<and>
         mobility_training_available (input_summary resp) = (mobility request \<noteq> 0)"
proof -
  have "(of_int (flag_sum request) / 6) * 100 = (100 * of_int (flag_sum request) / 6 :: real)"
    by simp
  with predict_demand_Inr [OF assms] show ?thesis by auto
qed

theorem input_summary_values_witness:
  "predict_demand demo_globals example_request =
     Inr \<lparr>demand_score = 3, demand_level = ''High'', confidence = 0.75,
          input_summary = \<lparr>total_training_areas = 4, vision_training_available = False,
                            mobility_training_available = False,
                            training_coverage_percentage = 66.7\<rparr>,
          recommendations =
            ''High demand potential! Prioritize manufacturing and distribution in this region.''\<rparr> \<and>
   py_round_ndigits (100 * of_int (flag_sum example_request) / 6) 1 = 66.7"
proof -
  have p: "predict_demand demo_globals example_request =
     Inr \<lparr>demand_score = 3, demand_level = ''High'', confidence = 0.75,
          input_summary = \<lparr>total_training_areas = 4, vision_training_available = False,
                            mobility_training_available = False,
                            training_coverage_percentage = 66.7\<rparr>,
          recommendations =
            ''High demand potential! Prioritize manufacturing and distribution in this region.''\<rparr>"
    by code_simp
  have s: "flag_sum example_request = 4" by (simp add: flag_sum_def example_request_def)
  show ?thesis using input_summary_values [OF p] p by (simp add: s)
qed

text \<open>
  C1, as the code has it: in model mode, when the raw output of the model is the finite
  number \<open>r\<close>, the score is \<open>round(r)\<close> clamped to 1..3 and the confidence is
  \<open>clamp(1 - |r - score|, 0.60, 0.95)\<close>, the distance being taken to the clamped score.
  When \<open>round(r)\<close> is already 1, 2 or 3 this is \<open>clamp(1 - |r - round(r)|, 0.60, 0.95)\<close>.
  Every confidence returned in model mode lies between 0.60 and 0.95.
\<close>

theorem model_confidence:
  "(model g = Some m \<and> scaler g = Some s \<and> feature_data features = Inr fd \<and>
    raw_prediction m s (actual_feature_names g) fd = Inr (Finite r) \<longrightarrow>
      predict_smart_glasses_demand g features =
        Inr (clamp (py_round r) 1 3,
             clamp (1 - \<bar>r - of_int (clamp (py_round r) 1 3)\<bar>) 0.60 0.95) \<and>
      (py_round r \<in> {1, 2, 3} \<longrightarrow>
         predict_smart_glasses_demand g features =
           Inr (py_round r, clamp (1 - \<bar>r - of_int (py_round r)\<bar>) 0.60 0.95))) \<and>
   (\<not> demo_mode g \<and> predict_smart_glasses_demand g features = Inr (score, conf) \<longrightarrow>
      0.60 \<le> conf \<and> conf \<le> 0.95)"
proof -
  have a: "predict_smart_glasses_demand g features =
        Inr (clamp (py_round r) 1 3,
             clamp (1 - \<bar>r - of_int (clamp (py_round r) 1 3)\<bar>) 0.60 0.95)"
    if h: "model g = Some m" "scaler g = Some s" "feature_data features = Inr fd"
      "raw_prediction m s (actual_feature_names g) fd = Inr (Finite r)"
  proof -
    have i: "max 1 (min 3 (py_round r)) = clamp (py_round r) 1 3"
      by (auto simp: clamp_def)
    have c: "min (0.95::real) (max 0.60 x) = clamp x 0.60 0.95" for x
      by (rule min_max_clamp) simp
    show ?thesis
      unfolding predict_model_mode [OF h] score_confidence_Finite i c by simp
  qed
  have b: "clamp (py_round r) 1 3 = py_round r" if "py_round r \<in> {1, 2, 3}"
    using that by (auto simp: clamp_def)
  have d: "0.60 \<le> conf \<and> conf \<le> 0.95"
    if n: "\<not> demo_mode g" and p: "predict_smart_glasses_demand g features = Inr (score, conf)"
  proof -
    from n obtain m' s' where "model g = Some m'" "scaler g = Some s'"
      by (auto simp: demo_mode_def)
    with p obtain prediction where sc: "score_confidence prediction = Inr (score, conf)"
      by (auto simp: predict_smart_glasses_demand_def split: sum.splits)
    then obtain r' where "prediction = Finite r'"
      by (cases prediction) (auto simp: score_confidence_def)
    with sc obtain x where "conf = min 0.95 (max 0.60 x)"
      by (auto simp: score_confidence_Finite)
    then show ?thesis by (simp add: min_def max_def)
  qed
  from a b d show ?thesis by metis
qed

theorem model_confidence_witness:
  "\<not> demo_mode (constant_model 2.3) \<and>
   predict_smart_glasses_demand (constant_model 2.3) (features_of example_request) =
     Inr (clamp (py_round 2.3) 1 3,
          clamp (1 - \<bar>2.3 - of_int (clamp (py_round 2.3) 1 3)\<bar>) 0.60 0.95) \<and>
   predict_smart_glasses_demand (constant_model 2.3) (features_of example_request) =
     Inr (2, 0.7) \<and>
   (0.60::real) \<le> 0.7 \<and> (0.7::real) \<le> 0.95"
proof -
  let ?m = "\<lambda>row::real list. (Inr (Finite 2.3) :: string + pyfloat)"
  let ?s = "\<lambda>df::(string \<times> real) list. (Inr (map snd df) :: string + real list)"
  let ?fd = "[(''Training related to Cognition'', 1),
              (''Training related to Communication'', 1),
              (''Training related to Hearing'', 1),
              (''Training related to Mobility'', 0),
              (''Training related to Self-care'', 1),
              (''Training related to Vision'', 0),
              (''total_training_score'', 4),
              (''vision_mobility_score'', 0),
              (''assistive_tech_readiness'', 200 / 3)] :: (string \<times> real) list"
  have m: "model (constant_model 2.3) = Some ?m"
    by (simp add: constant_model_def)
  have s: "scaler (constant_model 2.3) = Some ?s"
    by (simp add: constant_model_def)
  have n: "\<not> demo_mode (constant_model 2.3)" by (simp add: demo_mode_def m s)
  have fd: "feature_data (features_of example_request) = Inr ?fd"
    by code_simp
  have r: "raw_prediction ?m ?s (actual_feature_names (constant_model 2.3)) ?fd =
             Inr (Finite 2.3)"
    by code_simp
  have a: "predict_smart_glasses_demand (constant_model 2.3) (features_of example_request) =
     Inr (2, 0.7)"
    by code_simp
  note t = model_confidence
         [where g = "constant_model 2.3" and features = "features_of example_request"
            and m = ?m and s = ?s and fd = ?fd and r = "2.3" and score = 2 and conf = "0.7"]
  from t m s fd r
  have x: "predict_smart_glasses_demand (constant_model 2.3) (features_of example_request) =
        Inr (clamp (py_round 2.3) 1 3,
             clamp (1 - \<bar>2.3 - of_int (clamp (py_round 2.3) 1 3)\<bar>) 0.60 0.95)"
    by blast
  from t n a have z: "(0.60::real) \<le> 0.7 \<and> (0.7::real) \<le> 0.95" by blast
  from n x a z show ?thesis by blast
qed

text \<open>
  C1 as stated, with the distance taken to the rounding before clamping, fails: for the
  raw output 5 the rounding is 5 and the stated confidence would be 0.95, while the score
  is 3 and the confidence returned is 0.6.
\<close>

theorem unclamped_round_counterexample:
  "model (constant_model 5) = Some (\<lambda>row. Inr (Finite 5)) \<and>
   predict_smart_glasses_demand (constant_model 5) (features_of all_ones) = Inr (3, 0.6) \<and>
   clamp (1 - \<bar>5 - of_int (py_round 5)\<bar>) 0.60 0.95 = (0.95::real) \<and>
   (0.6::real) \<noteq> 0.95"
proof -
  have a: "model (constant_model 5) = Some (\<lambda>row. Inr (Finite 5))"
    by (simp add: constant_model_def)
  have b: "predict_smart_glasses_demand (constant_model 5) (features_of all_ones) =
             Inr (3, 0.6)"
    by code_simp
  have c: "clamp (1 - \<bar>5 - of_int (py_round 5)\<bar>) 0.60 0.95 = (0.95::real)"
    by code_simp
  have d: "(0.6::real) \<noteq> 0.95" by simp
  from a b c d show ?thesis by blast
qed

text \<open>
  C4: a batch of more than 50 requests is rejected as a whole with \<open>HTTPException(400)\<close>
  and nothing is predicted. A batch of at most 50 gets exactly one entry per request, in
  the order of the requests: the entry at index \<open>k\<close> carries the index \<open>k\<close> and depends on
  the request at \<open>k\<close> only; when the prediction of that request raises, it is the error
  entry for \<open>k\<close>, and the other entries are what they would be without it.
\<close>

theorem batch_per_index:
  "(length requests > 50 \<longrightarrow>
      predict_batch g requests =
        Inl (HTTPException 400 ''Batch size cannot exceed 50 requests'')) \<and>
   (length requests \<le> 50 \<longrightarrow>
      (\<exists>results. predict_batch g requests = Inr results \<and>
         length results = length requests \<and>
         (\<forall>k < length requests.
            entry_index (results ! k) = k \<and>
            results ! k = batch_item g k (requests ! k) \<and>
            (\<forall>e. predict_smart_glasses_demand g (features_of (requests ! k)) = Inl e \<longrightarrow>
                 results ! k = BatchError k e))))"
proof -
  have a: "length requests > 50 \<longrightarrow>
      predict_batch g requests =
        Inl (HTTPException 400 ''Batch size cannot exceed 50 requests'')"
    by (simp add: predict_batch_def)
  have b: "\<exists>results. predict_batch g requests = Inr results \<and>
         length results = length requests \<and>
         (\<forall>k < length requests.
            entry_index (results ! k) = k \<and>
            results ! k = batch_item g k (requests ! k) \<and>
            (\<forall>e. predict_smart_glasses_demand g (features_of (requests ! k)) = Inl e \<longrightarrow>
                 results ! k = BatchError k e))"
    if le: "length requests \<le> 50"
  proof -
    from le have p: "predict_batch g requests = Inr (batch_loop g 0 requests [])"
      by (simp add: predict_batch_def)
    have q: "\<forall>k < length requests.
            entry_index (batch_loop g 0 requests [] ! k) = k \<and>
            batch_loop g 0 requests [] ! k = batch_item g k (requests ! k) \<and>
            (\<forall>e. predict_smart_glasses_demand g (features_of (requests ! k)) = Inl e \<longrightarrow>
                 batch_loop g 0 requests [] ! k = BatchError k e)"
      by (simp add: batch_loop_nth batch_item_index batch_item_error)
    from p q batch_loop_length show ?thesis by blast
  qed
  from a b show ?thesis by blast
qed

theorem batch_per_index_witness:
  "length [all_zeros, all_ones, all_zeros] \<le> 50 \<and>
   predict_batch raising_model [all_zeros, all_ones, all_zeros] =
     Inr [BatchResult 0 2 ''Medium'' 0.7,
          BatchError 1 (HTTPException 500 ''Prediction error: model failure''),
          BatchResult 2 2 ''Medium'' 0.7] \<and>
   (\<exists>results. predict_batch raising_model [all_zeros, all_ones, all_zeros] = Inr results \<and>
      length results = length [all_zeros, all_ones, all_zeros]) \<and>
   50 < length (replicate 51 all_zeros) \<and>
   predict_batch raising_model (replicate 51 all_zeros) =
     Inl (HTTPException 400 ''Batch size cannot exceed 50 requests'')"
proof -
  have a: "length [all_zeros, all_ones, all_zeros] \<le> 50" by simp
  have b: "predict_batch raising_model [all_zeros, all_ones, all_zeros] =
     Inr [BatchResult 0 2 ''Medium'' 0.7,
          BatchError 1 (HTTPException 500 ''Prediction error: model failure''),
          BatchResult 2 2 ''Medium'' 0.7]"
    by code_simp
  have c: "50 < length (replicate 51 all_zeros)" by simp
  from batch_per_index [of "replicate 51 all_zeros" raising_model] c
  have d: "predict_batch raising_model (replicate 51 all_zeros) =
     Inl (HTTPException 400 ''Batch size cannot exceed 50 requests'')"
    by blast
  from batch_per_index [of "[all_zeros, all_ones, all_zeros]" raising_model] a
  have e: "\<exists>results.
      predict_batch raising_model [all_zeros, all_ones, all_zeros] = Inr results \<and>
      length results = length [all_zeros, all_ones, all_zeros]"
    by blast
  from a b c d e show ?thesis by blast
qed

text \<open>
  C7: a \<open>/predict\<close> body in which one of the six fields is missing, or has a value that
  is not taken for the integer 0 or 1 (it is no integer for the type step, or it is an
  integer other than 0 and 1), does not become a \<open>PredictionRequest\<close>, whatever the type
  step of the validation library is: the request is answered with a validation error of
  status 422, whatever the loaded model, and the endpoint function with its predictor
  is not reached. A body that is no object has none of the fields. A body with
  \<open>cognition = 2\<close> is refused.
\<close>

theorem invalid_body_rejected:
  assumes "name \<in> set field_names"
    and "lookup_field body name = None \<or>
         (\<exists>j. lookup_field body name = Some j \<and> (\<forall>v. int_type j = Inr v \<longrightarrow> v \<notin> {0, 1}))"
  shows "\<exists>errors. errors \<noteq> [] \<and>
           parse_PredictionRequest int_type body = Inl (RequestValidationError errors) \<and>
           (\<forall>g. post_predict int_type g body = Inl (RequestValidationError errors)) \<and>
           response_status (RequestValidationError errors) = 422"
proof -
  from validate_field_bad [OF assms(2)]
  obtain e where "validate_field int_type body name = Inl e"
    by blast
  from field_errors_nonempty [OF assms(1) this]
  have "field_errors int_type body \<noteq> []" .
  from parse_refuses [OF this] obtain errors where n: "errors \<noteq> []"
    and p: "parse_PredictionRequest int_type body = Inl (RequestValidationError errors)"
    by blast
  from p have q: "\<forall>g. post_predict int_type g body = Inl (RequestValidationError errors)"
    by (simp add: post_predict_def)
  have s: "response_status (RequestValidationError errors) = 422" by simp
  from n p q s show ?thesis by blast
qed

theorem invalid_body_rejected_witness:
  "''cognition'' \<in> set field_names \<and>
   lookup_field cognition_two_body ''cognition'' = Some (JInt 2) \<and>
   lax_integers (JInt 2) = Inr 2 \<and> (2::int) \<notin> {0, 1} \<and>
   (\<exists>errors. errors \<noteq> [] \<and>
      parse_PredictionRequest lax_integers cognition_two_body =
        Inl (RequestValidationError errors) \<and>
      (\<forall>g. post_predict lax_integers g cognition_two_body =
             Inl (RequestValidationError errors)) \<and>
      response_status (RequestValidationError errors) = 422) \<and>
   ''vision'' \<in> set field_names \<and> lookup_field incomplete_body ''vision'' = None \<and>
   (\<exists>errors. errors \<noteq> [] \<and>
      parse_PredictionRequest integers_only incomplete_body =
        Inl (RequestValidationError errors) \<and>
      (\<forall>g. post_predict integers_only g incomplete_body =
             Inl (RequestValidationError errors)) \<and>
      response_status (RequestValidationError errors) = 422)"
proof -
  have a: "''cognition'' \<in> set field_names" by (simp add: field_names_def)
  have b: "lookup_field cognition_two_body ''cognition'' = Some (JInt 2)"
    by (simp add: cognition_two_body_def lookup_field_def)
  have c: "lax_integers (JInt 2) = Inr 2" by simp
  have d: "(2::int) \<notin> {0, 1}" by simp
  from b c d have e: "lookup_field cognition_two_body ''cognition'' = None \<or>
    (\<exists>j. lookup_field cognition_two_body ''cognition'' = Some j \<and>
         (\<forall>v. lax_integers j = Inr v \<longrightarrow> v \<notin> {0, 1}))"
    by simp
  have f: "''vision'' \<in> set field_names" by (simp add: field_names_def)
  have g: "lookup_field incomplete_body ''vision'' = None"
    by (simp add: incomplete_body_def lookup_field_def)
  from g have h: "lookup_field incomplete_body ''vision'' = None \<or>
    (\<exists>j. lookup_field incomplete_body ''vision'' = Some j \<and>
         (\<forall>v. integers_only j = Inr v \<longrightarrow> v \<notin> {0, 1}))"
    by blast
  from invalid_body_rejected [OF a e] invalid_body_rejected [OF f h] a b c d f g
  show ?thesis by blast
qed

text \<open>
  C8: \<open>health_check\<close> returns an answer in every state of the globals and never raises.
  Its self-test is one prediction on the features with all six flags 1. When the model
  or the scaler is absent it answers healthy with \<open>demo_mode\<close> true, the self-test being
  the fallback prediction (3, 0.75); when the self-test raises it answers unhealthy.
\<close>

theorem health_never_raises:
  "(\<exists>h. health_check g = Inr h) \<and>
   test_features = features_of all_ones \<and>
   (demo_mode g \<longrightarrow>
      health_check g = Inr (Healthy False True True 3 0.75) \<and>
      health_demo_mode (Healthy False True True 3 0.75) = Some True) \<and>
   (\<forall>e. predict_smart_glasses_demand g test_features = Inl e \<longrightarrow>
      health_check g = Inr (Unhealthy False e))"
proof -
  have a: "\<exists>h. health_check g = Inr h"
    by (simp add: health_check_def split: sum.splits)
  have b: "health_check g = Inr (Healthy False True True 3 0.75)" if d: "demo_mode g"
  proof -
    have "demo_prediction test_features = (3, 0.75)"
      by (simp add: demo_prediction_def test_features_def sum_values_def)
    with d have "predict_smart_glasses_demand g test_features = Inr (3, 0.75)"
      by (simp add: predict_demo)
    moreover have "py_round_ndigits 0.75 3 = 0.75"
      by (simp add: py_round_ndigits_def py_round_def)
    moreover from d have "(model g \<noteq> None \<and> scaler g \<noteq> None) = False"
      and "(model g = None \<or> scaler g = None) = True"
      by (auto simp: demo_mode_def)
    ultimately show ?thesis
      by (simp add: health_check_def health_check_try_def)
  qed
  have c: "health_demo_mode (Healthy False True True 3 0.75) = Some True"
    by (simp add: health_demo_mode_def)
  have e: "\<forall>e. predict_smart_glasses_demand g test_features = Inl e \<longrightarrow>
      health_check g = Inr (Unhealthy False e)"
    by (simp add: health_check_def health_check_try_def)
  from a b c e test_features_all_ones show ?thesis by blast
qed

theorem health_never_raises_witness:
  "demo_mode demo_globals \<and>
   health_check demo_globals = Inr (Healthy False True True 3 0.75) \<and>
   predict_smart_glasses_demand raising_model test_features =
     Inl (HTTPException 500 ''Prediction error: model failure'') \<and>
   health_check raising_model =
     Inr (Unhealthy False (HTTPException 500 ''Prediction error: model failure''))"
proof -
  have d: "demo_mode demo_globals" by (simp add: demo_mode_def demo_globals_def)
  have p: "predict_smart_glasses_demand raising_model test_features =
     Inl (HTTPException 500 ''Prediction error: model failure'')"
    by code_simp
  from health_never_raises [of demo_globals] d
  have a: "health_check demo_globals = Inr (Healthy False True True 3 0.75)" by blast
  from health_never_raises [of raising_model] p
  have b: "health_check raising_model =
     Inr (Unhealthy False (HTTPException 500 ''Prediction error: model failure''))" by blast
  from d a p b show ?thesis by blast
qed

end
